theory Spec2Isabelle
  imports Main
begin

section \<open>The WhatsApp gateway of src/index.ts\<close>

text \<open>
  The server keeps four module-level variables (\<open>sock\<close>, \<open>qrCode\<close>, \<open>isConnected\<close>,
  \<open>phoneNumber\<close>) and changes them from three places: \<open>connectToWhatsApp\<close>, the
  \<open>connection.update\<close> listener it registers on every socket it makes, and the
  \<open>POST /api/logout\<close> route. The model passes these variables around as a record.
  Two pieces of runtime state are added to it, because the properties below talk about
  them: how many sockets \<open>makeWASocket\<close> has produced so far, and how many
  \<open>setTimeout(connectToWhatsApp, 5000)\<close> callbacks are pending.

  Everything the program awaits or calls outside itself (the protocol client, the QR
  renderer, the file system) is an input of the handler that uses it: the reply the
  handler receives, with \<open>None\<close> or \<open>False\<close> for a rejected promise or a thrown
  exception.

  The handlers are modelled at two grains. First each handler as a whole, from its first
  line to its last with nothing else running while it waits at an \<open>await\<close>
  (\<open>connection_update\<close>, \<open>api_send_message\<close>, \<open>api_logout\<close>, \<open>step\<close>). Then the
  handlers taken apart at their \<open>await\<close>s: a handler that reaches one is kept in the state
  as a suspended task, any other handler may run, and the task goes on when the reply it
  waits for arrives (\<open>node\<close>, \<open>nstep\<close>). The first grain is the second one when every
  reply arrives at once.
\<close>

subsection \<open>Data\<close>

type_synonym handle = nat

record world =
  sock :: "handle option"
  qrCode :: "string option"
  isConnected :: bool
  phoneNumber :: "string option"
  created :: nat
  timers :: nat

text \<open>
  \<open>created\<close> counts the calls of \<open>makeWASocket\<close> that returned: the sockets are numbered
  \<open>0, 1, ...\<close> in the order of their creation, and every one of them carries the
  \<open>connection.update\<close> listener. \<open>timers\<close> counts the pending retry timeouts; the source
  drops the timer id that \<open>setTimeout\<close> returns and never calls \<open>clearTimeout\<close>.
\<close>

definition init :: world where
  "init = \<lparr>sock = None, qrCode = None, isConnected = False, phoneNumber = None,
            created = 0, timers = 0\<rparr>"

datatype error = StartFailed | QrRenderFailed

datatype conn = Connecting | Open | Close

text \<open>
  The fields of a \<open>connection.update\<close> payload that the listener reads. \<open>statusCode\<close> is
  \<open>lastDisconnect?.error?.output?.statusCode\<close>, with \<open>None\<close> when any link of that chain
  is undefined.
\<close>

record update =
  connection :: "conn option"
  statusCode :: "int option"
  qr :: "string option"

text \<open>A value of a parsed JSON request body, as far as the send route looks at it.\<close>

datatype jsval = JUndefined | JNull | JBool bool | JNum int | JStr string | JArr | JObj

datatype req_body = BodyUndefined | Body jsval jsval

text \<open>One entry of the array that \<open>sock.onWhatsApp\<close> resolves to.\<close>

record wa_result =
  exists :: bool
  jid :: string

datatype remote_call =
    OnWhatsApp handle jsval
  | SendMessage handle string jsval
  | SockLogout handle
  | RmAuthFolder

datatype send_response = SendOk | MissingFields | NotConnected | NotRegistered | SendError

datatype logout_response = LogoutOk | LogoutError

record status =
  connected :: bool
  phone :: "string option"
  hasQR :: bool

subsection \<open>JavaScript primitives\<close>

text \<open>Truthiness, as \<open>!x\<close> and \<open>if (x)\<close> test it.\<close>

fun truthy :: "jsval \<Rightarrow> bool" where
  "truthy JUndefined = False"
| "truthy JNull = False"
| "truthy (JBool b) = b"
| "truthy (JNum n) = (n \<noteq> 0)"
| "truthy (JStr s) = (s \<noteq> [])"
| "truthy JArr = True"
| "truthy JObj = True"

definition truthy_str :: "string option \<Rightarrow> bool" where
  "truthy_str x = (case x of None \<Rightarrow> False | Some s \<Rightarrow> s \<noteq> [])"

text \<open>
  \<open>phone.includes('@')\<close> is a call of a method that strings and arrays have; on a number,
  on \<open>true\<close> and on an object parsed from JSON it throws a TypeError.
\<close>

fun has_includes :: "jsval \<Rightarrow> bool" where
  "has_includes (JStr s) = True"
| "has_includes JArr = True"
| "has_includes v = False"

text \<open>\<open>id.split(':')[0]\<close>: the text before the first colon, all of it when there is none.\<close>

definition split_colon_0 :: "string \<Rightarrow> string" where
  "split_colon_0 s = takeWhile (\<lambda>c. c \<noteq> CHR '':'') s"

subsection \<open>connectToWhatsApp and the connection.update listener\<close>

text \<open>
  \<open>env_ok\<close> says whether \<open>mkdirSync\<close>, \<open>useMultiFileAuthState\<close> and \<open>makeWASocket\<close> all
  completed; when one of them throws, the assignment to \<open>sock\<close> is not reached.
\<close>

definition connectToWhatsApp :: "bool \<Rightarrow> world \<Rightarrow> error + world" where
  "connectToWhatsApp env_ok w =
     (if env_ok then Inr (w\<lparr>sock := Some (created w), created := Suc (created w)\<rparr>)
      else Inl StartFailed)"

text \<open>\<open>DisconnectReason.loggedOut\<close> is a constant of the client library: a parameter here.\<close>

definition shouldReconnect :: "int \<Rightarrow> int option \<Rightarrow> bool" where
  "shouldReconnect loggedOut sc = (sc \<noteq> Some loggedOut)"

text \<open>
  The second half of the listener, from \<open>if (connection === 'close')\<close> on. \<open>cur_user\<close> is
  the \<open>id\<close> of the \<open>user\<close> of the socket that \<open>sock\<close> holds when the listener runs, \<open>None\<close>
  when that socket has no user; with \<open>sock\<close> null, \<open>sock?.user\<close> is undefined whatever the
  library knows.
\<close>

definition on_connection :: "int \<Rightarrow> update \<Rightarrow> string option \<Rightarrow> world \<Rightarrow> world" where
  "on_connection loggedOut upd cur_user w =
     (if connection upd = Some Close then
        (let w1 = w\<lparr>isConnected := False, phoneNumber := None, qrCode := None\<rparr>
         in if shouldReconnect loggedOut (statusCode upd)
            then w1\<lparr>timers := Suc (timers w1)\<rparr>
            else w1)
      else if connection upd = Some Open then
        (let w1 = w\<lparr>isConnected := True, qrCode := None\<rparr>
         in case sock w1 of
              None \<Rightarrow> w1
            | Some h \<Rightarrow>
                (case cur_user of
                   None \<Rightarrow> w1
                 | Some uid \<Rightarrow> w1\<lparr>phoneNumber := Some (split_colon_0 uid)\<rparr>))
      else w)"

text \<open>
  The listener. \<open>rendered\<close> is what \<open>QRCode.toDataURL(qr)\<close> resolves to, \<open>None\<close> when it
  rejects: the listener's promise then rejects before anything is assigned. The listener
  is one closure over the module's variables for every socket, so the socket that emitted
  the update is not among its arguments.
\<close>

definition connection_update ::
    "int \<Rightarrow> update \<Rightarrow> string option \<Rightarrow> string option \<Rightarrow> world \<Rightarrow> error + world" where
  "connection_update loggedOut upd rendered cur_user w =
     (if truthy_str (qr upd) then
        (case rendered of
           None \<Rightarrow> Inl QrRenderFailed
         | Some url \<Rightarrow> Inr (on_connection loggedOut upd cur_user (w\<lparr>qrCode := Some url\<rparr>)))
      else Inr (on_connection loggedOut upd cur_user w))"

subsection \<open>The routes\<close>

text \<open>\<open>GET /api/status\<close>.\<close>

definition api_status :: "world \<Rightarrow> status" where
  "api_status w =
     \<lparr>connected = isConnected w, phone = phoneNumber w, hasQR = truthy_str (qrCode w)\<rparr>"

text \<open>
  \<open>POST /api/send-message\<close>, with nothing else running during its two \<open>await\<close>s, so
  that \<open>sock\<close> is at the second call what it was at the first; \<open>send_route\<close> below
  reads it again. \<open>check\<close> is the reply of \<open>sock.onWhatsApp(phone)\<close>: \<open>None\<close>
  when the promise rejects or resolves to something that cannot be destructured, else the
  array. \<open>sent\<close> says whether \<open>sock.sendMessage\<close> resolved. The result is the response,
  the calls made on the client in order, and the module's variables afterwards. The
  \<open>jid\<close> that the route builds from \<open>phone\<close> is not used after it is built;
  \<open>phone'\<close> and \<open>message'\<close> are the route's \<open>phone\<close> and \<open>message\<close>.
\<close>

definition api_send_message ::
    "req_body \<Rightarrow> wa_result list option \<Rightarrow> bool \<Rightarrow> world
       \<Rightarrow> send_response \<times> remote_call list \<times> world" where
  "api_send_message body check sent w =
     (case body of
        BodyUndefined \<Rightarrow> (SendError, [], w)
      | Body phone' message' \<Rightarrow>
          if \<not> truthy phone' \<or> \<not> truthy message' then (MissingFields, [], w)
          else if \<not> isConnected w \<or> sock w = None then (NotConnected, [], w)
          else
            (case sock w of
               None \<Rightarrow> (NotConnected, [], w)
             | Some h \<Rightarrow>
                 if \<not> has_includes phone' then (SendError, [], w)
                 else
                   (case check of
                      None \<Rightarrow> (SendError, [OnWhatsApp h phone'], w)
                    | Some [] \<Rightarrow> (NotRegistered, [OnWhatsApp h phone'], w)
                    | Some (result # rest) \<Rightarrow>
                        if \<not> exists result then (NotRegistered, [OnWhatsApp h phone'], w)
                        else if sent
                        then (SendOk, [OnWhatsApp h phone', SendMessage h (jid result) message'], w)
                        else (SendError,
                              [OnWhatsApp h phone', SendMessage h (jid result) message'], w))))"

text \<open>
  \<open>POST /api/logout\<close>. \<open>logout_ok\<close> says whether \<open>sock.logout()\<close> resolved,
  \<open>folder_exists\<close> is \<open>fs.existsSync(AUTH_FOLDER)\<close>, \<open>rm_ok\<close> says whether \<open>fs.rmSync\<close>
  returned.
\<close>

definition api_logout ::
    "bool \<Rightarrow> bool \<Rightarrow> bool \<Rightarrow> world \<Rightarrow> logout_response \<times> remote_call list \<times> world" where
  "api_logout logout_ok folder_exists rm_ok w =
     (case sock w of
        None \<Rightarrow> (LogoutOk, [], w)
      | Some h \<Rightarrow>
          if \<not> logout_ok then (LogoutError, [SockLogout h], w)
          else
            (let w1 = w\<lparr>sock := None, isConnected := False, phoneNumber := None,
                         qrCode := None\<rparr>
             in if folder_exists
                then (if rm_ok then (LogoutOk, [SockLogout h, RmAuthFolder], w1)
                      else (LogoutError, [SockLogout h, RmAuthFolder], w1))
                else (LogoutOk, [SockLogout h], w1)))"

subsection \<open>The event loop, one whole handler at a time\<close>

text \<open>
  What Node can run next: the callback of \<open>app.listen\<close>, a pending retry timeout, the
  listener of some socket, or one of the two routes that are not plain reads. A listener
  or timer callback whose promise rejects has assigned nothing by then.
\<close>

datatype event =
    Listen bool
  | TimerFires bool
  | ConnectionUpdate handle update "string option" "string option"
  | SendMessageReq req_body "wa_result list option" bool
  | LogoutReq bool bool bool

fun step :: "int \<Rightarrow> event \<Rightarrow> world \<Rightarrow> world" where
  "step lo (Listen env_ok) w =
     (case connectToWhatsApp env_ok w of Inl e \<Rightarrow> w | Inr w' \<Rightarrow> w')"
| "step lo (TimerFires env_ok) w =
     (let w1 = w\<lparr>timers := timers w - 1\<rparr>
      in case connectToWhatsApp env_ok w1 of Inl e \<Rightarrow> w1 | Inr w' \<Rightarrow> w')"
| "step lo (ConnectionUpdate h upd rendered cur_user) w =
     (case connection_update lo upd rendered cur_user w of Inl e \<Rightarrow> w | Inr w' \<Rightarrow> w')"
| "step lo (SendMessageReq body check sent) w = snd (snd (api_send_message body check sent w))"
| "step lo (LogoutReq logout_ok folder_exists rm_ok) w =
     snd (snd (api_logout logout_ok folder_exists rm_ok w))"

fun run :: "int \<Rightarrow> event list \<Rightarrow> world \<Rightarrow> world" where
  "run lo [] w = w"
| "run lo (e # es) w = run lo es (step lo e w)"

text \<open>
  An event can happen only when its source exists: a timer fires only while one is
  pending, and a socket emits only after it was made.
\<close>

fun enabled :: "event \<Rightarrow> world \<Rightarrow> bool" where
  "enabled (TimerFires env_ok) w = (0 < timers w)"
| "enabled (ConnectionUpdate h upd rendered cur_user) w = (h < created w)"
| "enabled e w = True"

fun feasible :: "int \<Rightarrow> event list \<Rightarrow> world \<Rightarrow> bool" where
  "feasible lo [] w = True"
| "feasible lo (e # es) w = (enabled e w \<and> feasible lo es (step lo e w))"

subsection \<open>The event loop, with the handlers taken apart at their awaits\<close>

text \<open>
  The send route up to its first \<open>await\<close>: either it has answered, or it has called
  \<open>sock.onWhatsApp(phone)\<close> on the socket that \<open>sock\<close> holds now and waits.
\<close>

definition send_begin :: "req_body \<Rightarrow> world \<Rightarrow> send_response + handle \<times> jsval \<times> jsval" where
  "send_begin body w =
     (case body of
        BodyUndefined \<Rightarrow> Inl SendError
      | Body phone' message' \<Rightarrow>
          if \<not> truthy phone' \<or> \<not> truthy message' then Inl MissingFields
          else if \<not> isConnected w \<or> sock w = None then Inl NotConnected
          else
            (case sock w of
               None \<Rightarrow> Inl NotConnected
             | Some h \<Rightarrow>
                 if \<not> has_includes phone' then Inl SendError
                 else Inr (h, phone', message')))"

text \<open>
  The send route when the registration check has replied. \<open>w\<close> holds the variables as
  they are now: \<open>sock.sendMessage\<close> reads \<open>sock\<close> again, and on null it throws a
  TypeError, which the route's \<open>catch\<close> answers like any failed send.
\<close>

definition send_after_check ::
    "wa_result list option \<Rightarrow> jsval \<Rightarrow> world \<Rightarrow> send_response + handle \<times> string \<times> jsval" where
  "send_after_check check message' w =
     (case check of
        None \<Rightarrow> Inl SendError
      | Some [] \<Rightarrow> Inl NotRegistered
      | Some (result # rest) \<Rightarrow>
          if \<not> exists result then Inl NotRegistered
          else
            (case sock w of
               None \<Rightarrow> Inl SendError
             | Some h \<Rightarrow> Inr (h, jid result, message')))"

text \<open>The send route when \<open>sock.sendMessage\<close> has replied.\<close>

definition send_after_send :: "bool \<Rightarrow> send_response" where
  "send_after_send sent = (if sent then SendOk else SendError)"

text \<open>
  The whole send route: its answer and its calls on the client, from the variables \<open>w\<close>
  at the request and the variables \<open>w'\<close> when the registration check replies.
\<close>

definition send_route ::
    "req_body \<Rightarrow> wa_result list option \<Rightarrow> bool \<Rightarrow> world \<Rightarrow> world
       \<Rightarrow> send_response \<times> remote_call list" where
  "send_route body check sent w w' =
     (case send_begin body w of
        Inl r \<Rightarrow> (r, [])
      | Inr (h, phone', message') \<Rightarrow>
          (case send_after_check check message' w' of
             Inl r \<Rightarrow> (r, [OnWhatsApp h phone'])
           | Inr (h', j, m) \<Rightarrow>
               (send_after_send sent, [OnWhatsApp h phone', SendMessage h' j m])))"

text \<open>
  The logout route when \<open>sock.logout()\<close> has replied; before that the route has only
  tested \<open>sock\<close> and made the call.
\<close>

definition logout_resume :: "bool \<Rightarrow> bool \<Rightarrow> bool \<Rightarrow> world \<Rightarrow> logout_response \<times> world" where
  "logout_resume logout_ok folder_exists rm_ok w =
     (if \<not> logout_ok then (LogoutError, w)
      else
        (let w1 = w\<lparr>sock := None, isConnected := False, phoneNumber := None,
                     qrCode := None\<rparr>
         in if folder_exists
            then (if rm_ok then (LogoutOk, w1) else (LogoutError, w1))
            else (LogoutOk, w1)))"

text \<open>
  A suspended handler, by the \<open>await\<close> it stands at: \<open>connectToWhatsApp\<close> at
  \<open>useMultiFileAuthState\<close>, the listener at \<open>QRCode.toDataURL\<close>, the send route at
  \<open>sock.onWhatsApp\<close> and at \<open>sock.sendMessage\<close>, the logout route at \<open>sock.logout\<close>;
  and the reply that lets each go on. \<open>Rendered\<close> carries, after the data URL, the user
  id that \<open>sock?.user\<close> gives at that moment.
\<close>

datatype task =
    Starting
  | Rendering update
  | Checking handle jsval jsval
  | Sending handle
  | LoggingOut handle

datatype reply =
    Started bool
  | Rendered "string option" "string option"
  | Checked "wa_result list option"
  | Sent bool
  | LogoutDone bool bool bool

text \<open>
  The process: the module's variables, the suspended handlers, and whether the process
  has ended. Neither the listener's promise nor the one of \<open>connectToWhatsApp\<close> is
  awaited or caught by anyone, so when one rejects Node ends the process.
\<close>

record node =
  vars :: world
  tasks :: "task list"
  halted :: bool

definition node_init :: node where
  "node_init = \<lparr>vars = init, tasks = [], halted = False\<rparr>"

text \<open>
  What can happen next: the callback of \<open>app.listen\<close> or a retry timeout starts
  \<open>connectToWhatsApp\<close> (\<open>dir_ok\<close>: the folder test and \<open>mkdirSync\<close> did not throw), a
  socket emits \<open>connection.update\<close>, a request arrives, or a suspended handler gets
  its reply.
\<close>

datatype nevent =
    Listening bool
  | Timeout bool
  | Emit handle update "string option"
  | PostSend req_body
  | PostLogout
  | Resume task reply

definition settle :: "error + world \<Rightarrow> node \<Rightarrow> node" where
  "settle r s = (case r of Inl e \<Rightarrow> s\<lparr>halted := True\<rparr> | Inr w' \<Rightarrow> s\<lparr>vars := w'\<rparr>)"

definition suspend :: "task \<Rightarrow> node \<Rightarrow> node" where
  "suspend t s = s\<lparr>tasks := tasks s @ [t]\<rparr>"

text \<open>A suspended handler goes on, from the variables as they are now.\<close>

fun resume :: "int \<Rightarrow> task \<Rightarrow> reply \<Rightarrow> node \<Rightarrow> node" where
  "resume lo Starting (Started env_ok) s = settle (connectToWhatsApp env_ok (vars s)) s"
| "resume lo (Rendering upd) (Rendered rendered cur_user) s =
     settle (connection_update lo upd rendered cur_user (vars s)) s"
| "resume lo (Checking h phone' message') (Checked check) s =
     (case send_after_check check message' (vars s) of
        Inl r \<Rightarrow> s
      | Inr (h', j, m) \<Rightarrow> suspend (Sending h') s)"
| "resume lo (Sending h) (Sent sent) s = s"
| "resume lo (LoggingOut h) (LogoutDone logout_ok folder_exists rm_ok) s =
     s\<lparr>vars := snd (logout_resume logout_ok folder_exists rm_ok (vars s))\<rparr>"
| "resume lo t r s = s"

text \<open>
  An event happens only in a running process and only when its source exists; a reply
  belongs to a handler that is suspended at the matching \<open>await\<close>.
\<close>

fun answers :: "task \<Rightarrow> reply \<Rightarrow> bool" where
  "answers Starting (Started env_ok) = True"
| "answers (Rendering upd) (Rendered rendered cur_user) = True"
| "answers (Checking h phone' message') (Checked check) = True"
| "answers (Sending h) (Sent sent) = True"
| "answers (LoggingOut h) (LogoutDone logout_ok folder_exists rm_ok) = True"
| "answers t r = False"

fun occurs :: "nevent \<Rightarrow> node \<Rightarrow> bool" where
  "occurs (Timeout dir_ok) s = (\<not> halted s \<and> 0 < timers (vars s))"
| "occurs (Emit h upd cur_user) s = (\<not> halted s \<and> h < created (vars s))"
| "occurs (Resume t r) s = (\<not> halted s \<and> t \<in> set (tasks s) \<and> answers t r)"
| "occurs e s = (\<not> halted s)"

text \<open>
  A handler starts and runs to its first \<open>await\<close>, or to its end when it meets none:
  the listener waits only when the update carries a QR text.
\<close>

fun act :: "int \<Rightarrow> nevent \<Rightarrow> node \<Rightarrow> node" where
  "act lo (Listening dir_ok) s =
     (if dir_ok then suspend Starting s else s\<lparr>halted := True\<rparr>)"
| "act lo (Timeout dir_ok) s =
     (let s1 = s\<lparr>vars := (vars s)\<lparr>timers := timers (vars s) - 1\<rparr>\<rparr>
      in if dir_ok then suspend Starting s1 else s1\<lparr>halted := True\<rparr>)"
| "act lo (Emit h upd cur_user) s =
     (if truthy_str (qr upd) then suspend (Rendering upd) s
      else settle (connection_update lo upd None cur_user (vars s)) s)"
| "act lo (PostSend body) s =
     (case send_begin body (vars s) of
        Inl r \<Rightarrow> s
      | Inr (h, phone', message') \<Rightarrow> suspend (Checking h phone' message') s)"
| "act lo PostLogout s =
     (case sock (vars s) of None \<Rightarrow> s | Some h \<Rightarrow> suspend (LoggingOut h) s)"
| "act lo (Resume t r) s = resume lo t r (s\<lparr>tasks := remove1 t (tasks s)\<rparr>)"

definition nstep :: "int \<Rightarrow> nevent \<Rightarrow> node \<Rightarrow> node" where
  "nstep lo e s = (if occurs e s then act lo e s else s)"

fun nrun :: "int \<Rightarrow> nevent list \<Rightarrow> node \<Rightarrow> node" where
  "nrun lo [] s = s"
| "nrun lo (e # es) s = nrun lo es (nstep lo e s)"

fun nfeasible :: "int \<Rightarrow> nevent list \<Rightarrow> node \<Rightarrow> bool" where
  "nfeasible lo [] s = True"
| "nfeasible lo (e # es) s = (occurs e s \<and> nfeasible lo es (nstep lo e s))"

text \<open>
  The listener stores the QR code of an update that is neither an open nor a close: this
  happens when the renderer replies, not when the update arrives.
\<close>

fun stores_qr :: "nevent \<Rightarrow> bool" where
  "stores_qr (Resume (Rendering upd) (Rendered (Some url) cur_user)) =
     (truthy_str (qr upd) \<and> connection upd \<noteq> Some Open \<and> connection upd \<noteq> Some Close)"
| "stores_qr e = False"

text \<open>No such store happens while \<open>isConnected\<close> is true, along a run from \<open>s\<close>.\<close>

fun store_guarded :: "int \<Rightarrow> nevent list \<Rightarrow> node \<Rightarrow> bool" where
  "store_guarded lo [] s = True"
| "store_guarded lo (e # es) s =
     ((if stores_qr e then \<not> isConnected (vars s) else True)
      \<and> store_guarded lo es (nstep lo e s))"


subsection \<open>Predicates and scenarios used by the properties\<close>

text \<open>
  The listener gets past its first \<open>await\<close>: the update carries no QR text, or the
  renderer resolved.
\<close>

definition qr_renders :: "update \<Rightarrow> string option \<Rightarrow> bool" where
  "qr_renders upd rendered = (if truthy_str (qr upd) then rendered \<noteq> None else True)"

text \<open>A close event with a reason other than the logged-out one, handled to its end.\<close>

fun retryable_close :: "int \<Rightarrow> event \<Rightarrow> bool" where
  "retryable_close lo (ConnectionUpdate h upd rendered cur_user) =
     (connection upd = Some Close \<and> statusCode upd \<noteq> Some lo \<and> qr_renders upd rendered)"
| "retryable_close lo e = False"

text \<open>The snapshot invariant of the specification.\<close>

definition snapshot_inv :: "world \<Rightarrow> bool" where
  "snapshot_inv w = (if isConnected w then qrCode w = None else True)"

definition close_upd :: "int \<Rightarrow> update" where
  "close_upd code = \<lparr>connection = Some Close, statusCode = Some code, qr = None\<rparr>"

definition open_upd :: update where
  "open_upd = \<lparr>connection = Some Open, statusCode = None, qr = None\<rparr>"

definition qr_upd :: "string \<Rightarrow> update" where
  "qr_upd text = \<lparr>connection = None, statusCode = None, qr = Some text\<rparr>"

text \<open>
  Runs of the server from its start, with \<open>DisconnectReason.loggedOut = 401\<close> as in the
  client library, \<open>428\<close> and \<open>408\<close> being two of its other close reasons.
\<close>

definition reconnected_trace :: "event list" where
  "reconnected_trace =
     [Listen True,
      ConnectionUpdate 0 (close_upd 428) None None,
      TimerFires True,
      ConnectionUpdate 1 open_upd None (Some ''5551234:7@s.whatsapp.net'')]"

definition retry_pending_trace :: "event list" where
  "retry_pending_trace = [Listen True, ConnectionUpdate 0 (close_upd 408) None None]"

definition logged_out_close_trace :: "event list" where
  "logged_out_close_trace = [Listen True, ConnectionUpdate 0 (close_upd 401) None None]"

definition qr_after_open_trace :: "event list" where
  "qr_after_open_trace =
     [Listen True,
      ConnectionUpdate 0 open_upd None (Some ''5551234:7@s.whatsapp.net''),
      ConnectionUpdate 0 (qr_upd ''2@Zm9v'') (Some ''data:image/png;base64,iVBORw0KGgo='')
        (Some ''5551234:7@s.whatsapp.net'')]"

definition open_after_logout_trace :: "event list" where
  "open_after_logout_trace =
     [Listen True, LogoutReq True True True, ConnectionUpdate 0 open_upd None None]"



definition qr_stored_after_open_trace :: "nevent list" where
  "qr_stored_after_open_trace =
     [Listening True,
      Resume Starting (Started True),
      Emit 0 (qr_upd ''2@Zm9v'') None,
      Emit 0 open_upd (Some ''5551234:7@s.whatsapp.net''),
      Resume (Rendering (qr_upd ''2@Zm9v''))
        (Rendered (Some ''data:image/png;base64,iVBORw0KGgo='')
          (Some ''5551234:7@s.whatsapp.net''))]"

definition pairing_trace :: "nevent list" where
  "pairing_trace =
     [Listening True,
      Resume Starting (Started True),
      Emit 0 (qr_upd ''2@Zm9v'') None,
      Resume (Rendering (qr_upd ''2@Zm9v''))
        (Rendered (Some ''data:image/png;base64,iVBORw0KGgo='') None),
      Emit 0 open_upd (Some ''5551234:7@s.whatsapp.net''),
      PostSend (Body (JStr ''5559876'') (JStr ''hola'')),
      Emit 0 (close_upd 428) None,
      Resume (Checking 0 (JStr ''5559876'') (JStr ''hola'')) (Checked (Some [])),
      Timeout True,
      PostLogout,
      Resume Starting (Started True),
      Resume (LoggingOut 0) (LogoutDone True True True)]"

section \<open>Properties\<close>

subsection \<open>What the handlers do to the variables\<close>

lemmas scenario_defs =
  init_def close_upd_def open_upd_def qr_upd_def connectToWhatsApp_def connection_update_def
  on_connection_def shouldReconnect_def truthy_str_def api_status_def split_colon_0_def
  api_logout_def api_send_message_def qr_renders_def Let_def

lemmas node_defs =
  node_init_def nstep_def settle_def suspend_def send_begin_def send_after_check_def
  send_after_send_def send_route_def logout_resume_def

lemma step_logout_timers: "timers (step lo (LogoutReq a b c) w) = timers w"
  by (simp add: api_logout_def Let_def split: option.splits)

lemma step_logout_created: "created (step lo (LogoutReq a b c) w) = created w"
  by (simp add: api_logout_def Let_def split: option.splits)

lemma step_logout_sock:
  "sock (step lo (LogoutReq logout_ok folder_exists rm_ok) w) =
     (if logout_ok then None else sock w)"
  by (simp add: api_logout_def Let_def split: option.splits)

lemma on_connection_close:
  "connection upd = Some Close \<Longrightarrow>
   on_connection lo upd u w =
     w\<lparr>isConnected := False, phoneNumber := None, qrCode := None,
       timers := (if statusCode upd = Some lo then timers w else Suc (timers w))\<rparr>"
  by (simp add: on_connection_def shouldReconnect_def Let_def)

lemma step_close:
  assumes "connection upd = Some Close" and "qr_renders upd rendered"
  shows "step lo (ConnectionUpdate h upd rendered u) w =
     w\<lparr>isConnected := False, phoneNumber := None, qrCode := None,
       timers := (if statusCode upd = Some lo then timers w else Suc (timers w))\<rparr>"
  using assms
  by (cases rendered) (auto simp: connection_update_def qr_renders_def on_connection_close)

lemma step_open_gen:
  assumes "connection upd = Some Open" and "qr_renders upd rendered"
  shows "step lo (ConnectionUpdate h upd rendered cur_user) w =
     w\<lparr>isConnected := True, qrCode := None,
       phoneNumber :=
         (case sock w of
            None \<Rightarrow> phoneNumber w
          | Some g \<Rightarrow>
              (case cur_user of None \<Rightarrow> phoneNumber w | Some uid \<Rightarrow> Some (split_colon_0 uid)))\<rparr>"
  using assms
  by (cases rendered)
    (auto simp: connection_update_def qr_renders_def on_connection_def split: option.splits)

lemma retryable_closes_timers:
  "list_all (retryable_close lo) es \<Longrightarrow> timers (run lo es w) = timers w + length es"
proof (induction es arbitrary: w)
  case Nil
  then show ?case by simp
next
  case (Cons e es)
  from Cons.prems have e: "retryable_close lo e" and es: "list_all (retryable_close lo) es"
    by simp_all
  from e obtain h upd rendered u where
    ev: "e = ConnectionUpdate h upd rendered u" and
    c: "connection upd = Some Close" and s: "statusCode upd \<noteq> Some lo" and
    r: "qr_renders upd rendered"
    by (cases e) auto
  have "timers (step lo e w) = Suc (timers w)"
    using step_close [OF c r, of lo h u w] s ev by simp
  with Cons.IH [OF es, of "step lo e w"] show ?case by simp
qed

lemma api_send_message_frame: "snd (snd (api_send_message body check sent w)) = w"
  by (simp add: api_send_message_def split: req_body.splits option.splits list.splits)

lemma connection_update_sock:
  "connection_update lo upd rendered u w = Inr w' \<Longrightarrow> sock w' = sock w"
  by (auto simp: connection_update_def on_connection_def shouldReconnect_def Let_def
      split: if_splits option.splits)

lemma step_update_sock: "sock (step lo (ConnectionUpdate h upd rendered u) w) = sock w"
  by (cases "connection_update lo upd rendered u w") (auto dest: connection_update_sock)

subsection \<open>A handler that nothing interrupts\<close>

text \<open>
  When the reply a handler waits for arrives before anything else happens, the handler
  taken apart at its \<open>await\<close>s does to the variables what the whole handler does.
\<close>

lemma api_send_message_uninterrupted:
  "api_send_message body check sent w =
     (fst (send_route body check sent w w), snd (send_route body check sent w w), w)"
  by (simp add: api_send_message_def send_route_def send_begin_def send_after_check_def
      send_after_send_def split: req_body.splits option.splits list.splits)

lemma start_uninterrupted:
  assumes "\<not> halted s"
  shows "vars (nstep lo (Resume Starting (Started True)) (nstep lo (Listening True) s)) =
           step lo (Listen True) (vars s)"
  using assms by (simp add: nstep_def settle_def suspend_def connectToWhatsApp_def)

lemma retry_uninterrupted:
  assumes "occurs (Timeout True) s"
  shows "vars (nstep lo (Resume Starting (Started True)) (nstep lo (Timeout True) s)) =
           step lo (TimerFires True) (vars s)"
  using assms by (simp add: nstep_def settle_def suspend_def connectToWhatsApp_def Let_def)

lemma emit_uninterrupted:
  assumes "occurs (Emit h upd u) s" and "\<not> truthy_str (qr upd)"
  shows "vars (nstep lo (Emit h upd u) s) = step lo (ConnectionUpdate h upd rendered u) (vars s)"
  using assms by (simp add: nstep_def settle_def connection_update_def)

lemma emit_resume_uninterrupted:
  assumes "occurs (Emit h upd u0) s" and "truthy_str (qr upd)"
  shows "vars (nstep lo (Resume (Rendering upd) (Rendered (Some url) u))
           (nstep lo (Emit h upd u0) s)) =
         step lo (ConnectionUpdate h upd (Some url) u) (vars s)"
  using assms by (simp add: nstep_def settle_def suspend_def connection_update_def)

lemma logout_uninterrupted:
  assumes "\<not> halted s" and "sock (vars s) = Some h"
  shows "vars (nstep lo (Resume (LoggingOut h) (LogoutDone a b c)) (nstep lo PostLogout s)) =
           step lo (LogoutReq a b c) (vars s)"
  using assms
  by (simp add: nstep_def suspend_def api_logout_def logout_resume_def Let_def)

lemma logout_no_handle_uninterrupted:
  assumes "sock (vars s) = None"
  shows "vars (nstep lo PostLogout s) = step lo (LogoutReq a b c) (vars s)"
  using assms by (simp add: nstep_def api_logout_def)

subsection \<open>Close events and the retry\<close>

text \<open>
  Claim C1. A close event whose reason is not the logged-out reason schedules exactly one
  call of \<open>connectToWhatsApp\<close>, and a close event with the logged-out reason schedules
  none; both clear the snapshot. The source has no variable for the coordinator's phase:
  the terminal outcome of a close is the one that leaves no new timer behind, which is
  how LoggedOut is read here. Along any sequence \<open>es\<close> of close events without the
  logged-out reason, after the first \<open>k\<close> of them exactly \<open>k\<close> more retries are pending
  than before, so each close of the sequence scheduled one and none of them was terminal.
  The events are those the listener handles to its end (\<open>qr_renders\<close>).
\<close>

theorem close_retry_policy:
  assumes "connection upd = Some Close" and "qr_renders upd rendered"
    and "list_all (retryable_close lo) es" and "k \<le> length es"
  shows "timers (step lo (ConnectionUpdate h upd rendered cur_user) w) =
           (if statusCode upd = Some lo then timers w else Suc (timers w))
         \<and> api_status (step lo (ConnectionUpdate h upd rendered cur_user) w) =
             \<lparr>connected = False, phone = None, hasQR = False\<rparr>
         \<and> timers (run lo (take k es) w') = timers w' + k"
proof -
  have "list_all (retryable_close lo) (take k es)"
    using assms(3) by (auto simp: list_all_iff dest: in_set_takeD)
  from retryable_closes_timers [OF this, of w'] assms(4)
  have "timers (run lo (take k es) w') = timers w' + k" by simp
  with step_close [OF assms(1,2), of lo h cur_user w] show ?thesis
    by (simp add: api_status_def truthy_str_def)
qed

theorem close_retry_policy_witness:
  "timers (step 401 (ConnectionUpdate 0 (close_upd 428) None None) (step 401 (Listen True) init)) = 1
   \<and> timers (step 401 (ConnectionUpdate 0 (close_upd 401) None None) (step 401 (Listen True) init)) = 0
   \<and> timers (run 401 [ConnectionUpdate 0 (close_upd 428) None None,
                       ConnectionUpdate 0 (close_upd 500) None None] (step 401 (Listen True) init)) = 2"
proof -
  have c: "connection (close_upd 428) = Some Close" "connection (close_upd 401) = Some Close"
    by (simp_all add: close_upd_def)
  have r: "qr_renders (close_upd 428) None" "qr_renders (close_upd 401) None"
    by (simp_all add: close_upd_def qr_renders_def truthy_str_def)
  have l: "list_all (retryable_close 401) [ConnectionUpdate 0 (close_upd 428) None None,
                       ConnectionUpdate 0 (close_upd 500) None None]"
    by (simp add: close_upd_def qr_renders_def truthy_str_def)
  have k: "2 \<le> length [ConnectionUpdate 0 (close_upd 428) None None,
                       ConnectionUpdate 0 (close_upd 500) None None]"
    by simp
  show ?thesis
    using close_retry_policy [OF c(1) r(1) l k, of 0 None "step 401 (Listen True) init" "step 401 (Listen True) init"]
      close_retry_policy [OF c(2) r(2) l k, of 0 None "step 401 (Listen True) init" "step 401 (Listen True) init"]
    by (simp add: close_upd_def init_def connectToWhatsApp_def)
qed

subsection \<open>The snapshot after open and close\<close>

text \<open>
  Claim C2, as stated, fails. The open branch takes the phone from \<open>sock?.user\<close>, the
  user of the socket that \<open>sock\<close> holds, and assigns it only when there is one. An open
  event that arrives after a logout, when \<open>sock\<close> is null, or while the socket held has
  no user, leaves the status connected with no phone.
\<close>

theorem open_identity_counterexample:
  "feasible 401 open_after_logout_trace init
   \<and> sock (run 401 open_after_logout_trace init) = None
   \<and> api_status (run 401 open_after_logout_trace init) =
       \<lparr>connected = True, phone = None, hasQR = False\<rparr>
   \<and> feasible 401 [Listen True, ConnectionUpdate 0 open_upd None None] init
   \<and> api_status (run 401 [Listen True, ConnectionUpdate 0 open_upd None None] init) =
       \<lparr>connected = True, phone = None, hasQR = False\<rparr>"
  by (simp add: open_after_logout_trace_def scenario_defs)

text \<open>
  Claim C2, amended. After an open event \<open>GET /api/status\<close> answers connected and no QR
  code. The phone is the user id, up to its first colon, of the socket that \<open>sock\<close>
  holds, when \<open>sock\<close> holds one and the client reports a user for it; otherwise the
  phone is what it was before the event. After the next close event, whatever events
  \<open>mid\<close> came in between and in whatever state \<open>w2\<close> the close finds the variables,
  it answers not connected, no phone and no QR code.
\<close>

theorem open_then_close_status:
  assumes "connection upd = Some Open" and "qr_renders upd rendered"
    and "connection upd' = Some Close" and "qr_renders upd' rendered'"
  shows "api_status (step lo (ConnectionUpdate h upd rendered cur_user) w) =
           \<lparr>connected = True,
            phone =
              (case sock w of
                 None \<Rightarrow> phoneNumber w
               | Some g \<Rightarrow>
                   (case cur_user of
                      None \<Rightarrow> phoneNumber w
                    | Some uid \<Rightarrow> Some (split_colon_0 uid))),
            hasQR = False\<rparr>
         \<and> qrCode (step lo (ConnectionUpdate h upd rendered cur_user) w) = None
         \<and> api_status (step lo (ConnectionUpdate h' upd' rendered' u')
              (run lo mid (step lo (ConnectionUpdate h upd rendered cur_user) w))) =
             \<lparr>connected = False, phone = None, hasQR = False\<rparr>
         \<and> qrCode (step lo (ConnectionUpdate h' upd' rendered' u')
              (run lo mid (step lo (ConnectionUpdate h upd rendered cur_user) w))) = None
         \<and> api_status (step lo (ConnectionUpdate h' upd' rendered' u') w2) =
             \<lparr>connected = False, phone = None, hasQR = False\<rparr>"
  using step_open_gen [OF assms(1,2), of lo h cur_user w]
    step_close [OF assms(3,4), of lo h' u'
      "run lo mid (step lo (ConnectionUpdate h upd rendered cur_user) w)"]
    step_close [OF assms(3,4), of lo h' u' w2]
  by (simp add: api_status_def truthy_str_def)

theorem open_then_close_status_witness:
  "api_status (step 401 (ConnectionUpdate 0 open_upd None (Some ''5551234:7@s.whatsapp.net''))
      (step 401 (Listen True) init)) =
     \<lparr>connected = True, phone = Some ''5551234'', hasQR = False\<rparr>
   \<and> api_status (step 401 (ConnectionUpdate 0 open_upd None None)
      (step 401 (Listen True) init)) =
     \<lparr>connected = True, phone = None, hasQR = False\<rparr>
   \<and> api_status (step 401 (ConnectionUpdate 0 (close_upd 428) None None)
        (run 401 [SendMessageReq BodyUndefined None False]
          (step 401 (ConnectionUpdate 0 open_upd None (Some ''5551234:7@s.whatsapp.net''))
            (step 401 (Listen True) init)))) =
     \<lparr>connected = False, phone = None, hasQR = False\<rparr>"
proof -
  have o: "connection open_upd = Some Open" and ro: "qr_renders open_upd None"
    by (simp_all add: open_upd_def qr_renders_def truthy_str_def)
  have c: "connection (close_upd 428) = Some Close" and rc: "qr_renders (close_upd 428) None"
    by (simp_all add: close_upd_def qr_renders_def truthy_str_def)
  have s: "sock (step 401 (Listen True) init) = Some 0"
      "phoneNumber (step 401 (Listen True) init) = None"
    by (simp_all add: init_def connectToWhatsApp_def)
  show ?thesis
    using open_then_close_status [OF o ro c rc, of 401 0 "Some ''5551234:7@s.whatsapp.net''"
        "step 401 (Listen True) init" 0 None "[SendMessageReq BodyUndefined None False]" init]
      open_then_close_status [OF o ro c rc, of 401 0 None
        "step 401 (Listen True) init" 0 None "[]" init] s
    by (simp add: split_colon_0_def del: step.simps)
qed

subsection \<open>Sending\<close>




text \<open>
  Claim C4. A send request with truthy \<open>phone\<close> and \<open>message\<close>, while \<open>isConnected\<close> is
  false or \<open>sock\<close> is null, is answered NotConnected, and neither the registration check
  nor the send command is called.
\<close>

theorem send_not_connected:
  assumes "truthy p" and "truthy m" and "\<not> isConnected w \<or> sock w = None"
  shows "api_send_message (Body p m) check sent w = (NotConnected, [], w)"
  using assms by (auto simp: api_send_message_def)

theorem send_not_connected_witness:
  "api_send_message (Body (JStr ''5551234'') (JStr ''hola''))
      (Some [\<lparr>exists = True, jid = ''15551234@s.whatsapp.net''\<rparr>]) True init =
     (NotConnected, [], init)"
proof -
  have "\<not> isConnected init \<or> sock init = None" by (simp add: init_def)
  from send_not_connected [OF _ _ this, of "JStr ''5551234''" "JStr ''hola''"]
  show ?thesis by simp
qed

text \<open>
  Claim C10. The send route assigns none of the module's variables: whatever the request
  and whatever the client replies, \<open>sock\<close>, \<open>qrCode\<close>, \<open>isConnected\<close> and \<open>phoneNumber\<close>
  are afterwards what they were before.
\<close>

theorem send_message_frame:
  "snd (snd (api_send_message body check sent w)) = w"
  by (rule api_send_message_frame)

theorem send_message_frame_witness:
  "snd (snd (api_send_message (Body (JStr ''5551234'') (JStr ''hola''))
      (Some [\<lparr>exists = True, jid = ''15551234@s.whatsapp.net''\<rparr>]) False
      \<lparr>sock = Some 0, qrCode = None, isConnected = True, phoneNumber = Some ''999'',
        created = 1, timers = 0\<rparr>)) =
   \<lparr>sock = Some 0, qrCode = None, isConnected = True, phoneNumber = Some ''999'',
        created = 1, timers = 0\<rparr>"
  by (rule send_message_frame)


subsection \<open>Events of a socket that is no longer current\<close>

text \<open>
  Claim C5, as stated, fails. After a close, a retry and the open of the new socket
  \<open>1\<close>, a close event of the old socket \<open>0\<close> clears the snapshot of a live connection
  and schedules one more retry.
\<close>

theorem stale_close_counterexample:
  "feasible 401 reconnected_trace init
   \<and> sock (run 401 reconnected_trace init) = Some 1
   \<and> api_status (run 401 reconnected_trace init) =
       \<lparr>connected = True, phone = Some ''5551234'', hasQR = False\<rparr>
   \<and> timers (run 401 reconnected_trace init) = 0
   \<and> api_status (step 401 (ConnectionUpdate 0 (close_upd 428) None None)
        (run 401 reconnected_trace init)) =
       \<lparr>connected = False, phone = None, hasQR = False\<rparr>
   \<and> timers (step 401 (ConnectionUpdate 0 (close_upd 428) None None)
        (run 401 reconnected_trace init)) = 1"
  by (simp add: reconnected_trace_def scenario_defs)

text \<open>
  Claim C5, amended. The listener does not look at the socket that emitted the update: a
  close event of a socket other than the one in \<open>sock\<close> is handled like a close event
  of the current one. It clears \<open>isConnected\<close>, \<open>phoneNumber\<close> and \<open>qrCode\<close>, schedules
  one retry unless its reason is the logged-out reason, and leaves \<open>sock\<close> as it is.
\<close>

theorem stale_close_handled:
  assumes "sock w = Some g" and "h \<noteq> g" and "connection upd = Some Close"
    and "qr_renders upd rendered"
  shows "step lo (ConnectionUpdate h upd rendered cur_user) w =
           w\<lparr>isConnected := False, phoneNumber := None, qrCode := None,
             timers := (if statusCode upd = Some lo then timers w else Suc (timers w))\<rparr>
         \<and> step lo (ConnectionUpdate h upd rendered cur_user) w =
             step lo (ConnectionUpdate g upd rendered cur_user) w"
  using step_close [OF assms(3,4), of lo h cur_user w] by simp

theorem stale_close_handled_witness:
  "step 401 (ConnectionUpdate 0 (close_upd 428) None None)
      \<lparr>sock = Some 1, qrCode = None, isConnected = True, phoneNumber = Some ''5551234'',
        created = 2, timers = 0\<rparr> =
     \<lparr>sock = Some 1, qrCode = None, isConnected = False, phoneNumber = None,
        created = 2, timers = 1\<rparr>"
proof -
  have s: "sock \<lparr>sock = Some 1, qrCode = None, isConnected = True,
      phoneNumber = Some ''5551234'', created = 2, timers = 0\<rparr> = Some 1"
    by simp
  have n: "(0::nat) \<noteq> 1" by simp
  have c: "connection (close_upd 428) = Some Close" and r: "qr_renders (close_upd 428) None"
    by (simp_all add: close_upd_def qr_renders_def truthy_str_def)
  from stale_close_handled [OF s n c r, of 401 None] show ?thesis
    by (simp add: close_upd_def)
qed

subsection \<open>Logout and the pending retry\<close>

text \<open>
  Claim C6, as stated, fails. A close schedules a retry, the logout that follows sets
  \<open>sock\<close> to null and leaves the timer pending, and when the timer fires a second socket
  is made.
\<close>

theorem logout_retry_counterexample:
  "feasible 401 (retry_pending_trace @ [LogoutReq True True True, TimerFires True]) init
   \<and> timers (run 401 retry_pending_trace init) = 1
   \<and> sock (run 401 (retry_pending_trace @ [LogoutReq True True True]) init) = None
   \<and> timers (run 401 (retry_pending_trace @ [LogoutReq True True True]) init) = 1
   \<and> sock (run 401 (retry_pending_trace @ [LogoutReq True True True, TimerFires True]) init) =
       Some 1
   \<and> created (run 401 (retry_pending_trace @ [LogoutReq True True True, TimerFires True]) init) =
       2"
  by (simp add: retry_pending_trace_def scenario_defs)

text \<open>
  Claim C6, amended. The logout route does not cancel a scheduled retry: the number of
  pending timers is the same after it as before, whatever its outcome, so a retry pending
  before the logout can still fire after it, and when it fires and \<open>connectToWhatsApp\<close>
  completes, \<open>sock\<close> holds a new socket.
\<close>

theorem logout_keeps_retry:
  assumes "0 < timers w"
  shows "timers (step lo (LogoutReq logout_ok folder_exists rm_ok) w) = timers w
         \<and> enabled (TimerFires True) (step lo (LogoutReq logout_ok folder_exists rm_ok) w)
         \<and> sock (step lo (TimerFires True)
              (step lo (LogoutReq logout_ok folder_exists rm_ok) w)) = Some (created w)
         \<and> created (step lo (TimerFires True)
              (step lo (LogoutReq logout_ok folder_exists rm_ok) w)) = Suc (created w)"
  using assms step_logout_timers [of lo logout_ok folder_exists rm_ok w]
    step_logout_created [of lo logout_ok folder_exists rm_ok w]
  by (simp add: connectToWhatsApp_def Let_def)

theorem logout_keeps_retry_witness:
  "timers (step 401 (LogoutReq True True True) (run 401 retry_pending_trace init)) = 1
   \<and> sock (step 401 (TimerFires True)
        (step 401 (LogoutReq True True True) (run 401 retry_pending_trace init))) = Some 1"
proof -
  have t: "0 < timers (run 401 retry_pending_trace init)"
    by (simp add: retry_pending_trace_def scenario_defs)
  have c: "created (run 401 retry_pending_trace init) = 1"
      "timers (run 401 retry_pending_trace init) = 1"
    by (simp_all add: retry_pending_trace_def scenario_defs)
  from logout_keeps_retry [OF t, of 401 True True True] c show ?thesis
    by (simp del: step.simps)
qed

subsection \<open>When the handle is given up\<close>

text \<open>
  Claim C7, as stated, fails. After a close event with the logged-out reason \<open>sock\<close>
  still holds the socket, and so it does after a logout whose \<open>sock.logout()\<close> rejects.
\<close>

theorem handle_after_close_counterexample:
  "feasible 401 logged_out_close_trace init
   \<and> sock (run 401 logged_out_close_trace init) = Some 0
   \<and> timers (run 401 logged_out_close_trace init) = 0
   \<and> sock (step 401 (LogoutReq False True True) (step 401 (Listen True) init)) = Some 0"
  by (simp add: logged_out_close_trace_def scenario_defs)

text \<open>
  Claim C7, amended. \<open>sock\<close> is null after a logout whose \<open>sock.logout()\<close> resolves.
  A logout whose \<open>sock.logout()\<close> rejects and every connection update, a close event
  with the logged-out reason included, leave \<open>sock\<close> as it was.
\<close>

theorem handle_cleared_by_logout_only:
  "sock (step lo (LogoutReq True folder_exists rm_ok) w) = None
   \<and> sock (step lo (LogoutReq False folder_exists rm_ok) w) = sock w
   \<and> sock (step lo (ConnectionUpdate h upd rendered cur_user) w) = sock w"
  using step_logout_sock [of lo True folder_exists rm_ok w]
    step_logout_sock [of lo False folder_exists rm_ok w]
    step_update_sock [of lo h upd rendered cur_user w]
  by simp

theorem handle_cleared_by_logout_only_witness:
  "sock (step 401 (LogoutReq True True True) (step 401 (Listen True) init)) = None
   \<and> sock (step 401 (ConnectionUpdate 0 (close_upd 401) None None)
        (step 401 (Listen True) init)) = Some 0"
  using handle_cleared_by_logout_only [of 401 True True "step 401 (Listen True) init"
      0 "close_upd 401" None None]
  by (simp add: init_def connectToWhatsApp_def)

subsection \<open>The snapshot invariant\<close>

lemma connectToWhatsApp_inv:
  "snapshot_inv w \<Longrightarrow> connectToWhatsApp ok w = Inr w' \<Longrightarrow> snapshot_inv w'"
  by (auto simp: snapshot_inv_def connectToWhatsApp_def split: if_splits)

lemma connection_update_inv:
  assumes "snapshot_inv w" and "connection_update lo upd rendered u w = Inr w'"
    and "truthy_str (qr upd) \<Longrightarrow> rendered \<noteq> None \<Longrightarrow> connection upd \<noteq> Some Open \<Longrightarrow>
         connection upd \<noteq> Some Close \<Longrightarrow> \<not> isConnected w"
  shows "snapshot_inv w'"
  using assms
  by (auto simp: snapshot_inv_def connection_update_def on_connection_def Let_def
      split: option.splits if_splits)

lemma logout_resume_inv: "snapshot_inv w \<Longrightarrow> snapshot_inv (snd (logout_resume a b c w))"
  by (simp add: snapshot_inv_def logout_resume_def Let_def)

lemma settle_inv:
  assumes "snapshot_inv (vars s)" and "\<And>w'. r = Inr w' \<Longrightarrow> snapshot_inv w'"
  shows "snapshot_inv (vars (settle r s))"
  using assms by (cases r) (simp_all add: settle_def)

lemma resume_inv:
  assumes "snapshot_inv (vars s)" and "stores_qr (Resume t r) \<Longrightarrow> \<not> isConnected (vars s)"
  shows "snapshot_inv (vars (resume lo t r s))"
proof (cases "answers t r")
  case False
  then have "resume lo t r s = s"
    by (cases t; cases r) simp_all
  with assms(1) show ?thesis by simp
next
  case True
  show ?thesis
  proof (cases t)
    case Starting
    with True obtain ok where "r = Started ok" by (cases r) simp_all
    with Starting assms(1) show ?thesis
      by (auto intro!: settle_inv elim: connectToWhatsApp_inv)
  next
    case (Rendering upd)
    with True obtain rendered u where r: "r = Rendered rendered u" by (cases r) simp_all
    have "snapshot_inv w'" if "connection_update lo upd rendered u (vars s) = Inr w'" for w'
    proof (rule connection_update_inv [OF assms(1) that])
      assume "truthy_str (qr upd)" "rendered \<noteq> None" "connection upd \<noteq> Some Open"
        "connection upd \<noteq> Some Close"
      then have "stores_qr (Resume t r)" using Rendering r by auto
      then show "\<not> isConnected (vars s)" by (rule assms(2))
    qed
    with Rendering r assms(1) show ?thesis by (auto intro!: settle_inv)
  next
    case (Checking h p m)
    with True obtain check where "r = Checked check" by (cases r) simp_all
    with Checking assms(1) show ?thesis
      by (simp add: suspend_def split: sum.splits prod.splits)
  next
    case (Sending h)
    with True obtain b where "r = Sent b" by (cases r) simp_all
    with Sending assms(1) show ?thesis by simp
  next
    case (LoggingOut h)
    with True obtain a b c where "r = LogoutDone a b c" by (cases r) simp_all
    with LoggingOut assms(1) show ?thesis by (simp add: logout_resume_inv)
  qed
qed

lemma act_inv:
  assumes "snapshot_inv (vars s)" and "stores_qr e \<Longrightarrow> \<not> isConnected (vars s)"
  shows "snapshot_inv (vars (act lo e s))"
proof (cases e)
  case (Listening ok)
  with assms(1) show ?thesis by (simp add: suspend_def)
next
  case (Timeout ok)
  with assms(1) show ?thesis by (simp add: suspend_def Let_def snapshot_inv_def)
next
  case (Emit h upd u)
  have "snapshot_inv w'" if "connection_update lo upd None u (vars s) = Inr w'" for w'
    by (rule connection_update_inv [OF assms(1) that]) simp
  with Emit assms(1) show ?thesis by (auto simp: suspend_def intro!: settle_inv)
next
  case (PostSend body)
  with assms(1) show ?thesis by (simp add: suspend_def split: sum.splits prod.splits)
next
  case PostLogout
  with assms(1) show ?thesis by (simp add: suspend_def split: option.splits)
next
  case (Resume t r)
  have "snapshot_inv (vars (resume lo t r (s\<lparr>tasks := remove1 t (tasks s)\<rparr>)))"
    by (rule resume_inv) (use assms Resume in simp_all)
  with Resume show ?thesis by simp
qed

lemma nrun_inv:
  "snapshot_inv (vars s) \<Longrightarrow> store_guarded lo es s \<Longrightarrow> snapshot_inv (vars (nrun lo es s))"
proof (induction es arbitrary: s)
  case Nil
  then show ?case by simp
next
  case (Cons e es)
  from Cons.prems have g: "stores_qr e \<Longrightarrow> \<not> isConnected (vars s)"
    and rest: "store_guarded lo es (nstep lo e s)"
    by (simp_all split: if_splits)
  have "snapshot_inv (vars (nstep lo e s))"
    using act_inv [OF Cons.prems(1) g] Cons.prems(1) by (simp add: nstep_def)
  from Cons.IH [OF this rest] show ?case by simp
qed

text \<open>
  Claim C8, as stated, fails. The listener stores a QR code whenever an update carries
  one, without a look at \<open>isConnected\<close>: after an open event and then a QR event, the
  status is connected with a QR code. The same happens when the QR update arrives first,
  while not connected, and its rendering replies only after the open event was handled.
\<close>

theorem snapshot_inv_counterexample:
  "feasible 401 qr_after_open_trace init
   \<and> api_status (run 401 qr_after_open_trace init) =
       \<lparr>connected = True, phone = Some ''5551234'', hasQR = True\<rparr>
   \<and> \<not> snapshot_inv (run 401 qr_after_open_trace init)
   \<and> nfeasible 401 qr_stored_after_open_trace node_init
   \<and> \<not> isConnected (vars (nrun 401 [Listening True, Resume Starting (Started True)] node_init))
   \<and> isConnected (vars (nrun 401 qr_stored_after_open_trace node_init))
   \<and> qrCode (vars (nrun 401 qr_stored_after_open_trace node_init)) =
       Some ''data:image/png;base64,iVBORw0KGgo=''
   \<and> api_status (vars (nrun 401 qr_stored_after_open_trace node_init)) =
       \<lparr>connected = True, phone = Some ''5551234'', hasQR = True\<rparr>
   \<and> \<not> snapshot_inv (vars (nrun 401 qr_stored_after_open_trace node_init))"
  by (simp add: qr_after_open_trace_def qr_stored_after_open_trace_def snapshot_inv_def
      node_defs scenario_defs)

text \<open>
  Claim C8, amended. In every state reached from the initial state by a run of the
  handlers, taken apart at their \<open>await\<close>s, in which the listener stores no QR code of a
  QR-only update at a moment when \<open>isConnected\<close> is true, \<open>isConnected\<close> implies that
  \<open>qrCode\<close> is null. The store happens when \<open>QRCode.toDataURL\<close> replies, which can be
  after a later open event.
\<close>

theorem snapshot_inv_guarded:
  assumes "store_guarded lo es node_init"
  shows "snapshot_inv (vars (nrun lo es node_init))"
proof -
  have "snapshot_inv (vars node_init)" by (simp add: snapshot_inv_def node_init_def init_def)
  from nrun_inv [OF this assms] show ?thesis .
qed

theorem snapshot_inv_guarded_witness:
  "snapshot_inv (vars (nrun 401 pairing_trace node_init))"
proof -
  have "store_guarded 401 pairing_trace node_init"
    by (simp add: pairing_trace_def node_defs scenario_defs)
  then show ?thesis by (rule snapshot_inv_guarded)
qed

subsection \<open>Logging out twice\<close>

text \<open>
  Claim C9, as stated, fails. A logout whose \<open>sock.logout()\<close> rejects answers with an
  error. A logout with \<open>sock\<close> null answers success and assigns nothing: when an open
  event of the old socket has arrived after an earlier logout, the snapshot stays
  connected.
\<close>

theorem logout_idempotent_counterexample:
  "feasible 401 logged_out_close_trace init
   \<and> fst (api_logout False True True (run 401 logged_out_close_trace init)) = LogoutError
   \<and> feasible 401 open_after_logout_trace init
   \<and> sock (run 401 open_after_logout_trace init) = None
   \<and> fst (api_logout True True True (run 401 open_after_logout_trace init)) = LogoutOk
   \<and> api_status (snd (snd (api_logout True True True (run 401 open_after_logout_trace init)))) =
       \<lparr>connected = True, phone = None, hasQR = False\<rparr>"
  by (simp add: logged_out_close_trace_def open_after_logout_trace_def scenario_defs)

text \<open>
  Claim C9, amended. A logout called with \<open>sock\<close> null answers success, calls nothing and
  leaves every variable, the snapshot included, as it is. A logout called with a socket
  whose \<open>sock.logout()\<close> resolves sets \<open>sock\<close> to null and the snapshot to idle, and
  answers success unless removing the credential folder throws. In both cases a second
  logout right after answers success, calls nothing and changes nothing.
\<close>

theorem logout_twice:
  assumes "api_logout logout_ok folder_exists rm_ok w = (r1, calls1, w1)"
    and "sock w = None \<or> logout_ok"
  shows "(r1 = LogoutOk) = (sock w = None \<or> \<not> folder_exists \<or> rm_ok)
         \<and> sock w1 = None
         \<and> (if sock w = None then w1 = w \<and> calls1 = []
             else api_status w1 = \<lparr>connected = False, phone = None, hasQR = False\<rparr>)
         \<and> api_logout logout_ok' folder_exists' rm_ok' w1 = (LogoutOk, [], w1)"
  using assms
  by (auto simp: api_logout_def api_status_def truthy_str_def Let_def
      split: option.splits if_splits)

theorem logout_twice_witness:
  "api_logout True True True (step 401 (Listen True) init) =
     (LogoutOk, [SockLogout 0, RmAuthFolder], init\<lparr>created := 1\<rparr>)
   \<and> api_logout True True True (init\<lparr>created := 1\<rparr>) = (LogoutOk, [], init\<lparr>created := 1\<rparr>)"
proof -
  have a: "api_logout True True True (step 401 (Listen True) init) =
     (LogoutOk, [SockLogout 0, RmAuthFolder], init\<lparr>created := 1\<rparr>)"
    by (simp add: scenario_defs)
  have b: "sock (step 401 (Listen True) init) = None \<or> True" by simp
  from logout_twice [OF a b, of True True True] a show ?thesis by simp
qed

end
